theory Spec2Isabelle
  imports Main "HOL-Library.Word"
begin

section \<open>Data model\<close>

text \<open>
  The decoder lives in package \<open>utils\<close> (\<open>LoadContractABIs\<close>, \<open>ParseTransactionData\<close>,
  \<open>formatValue\<close>, \<open>ParseEventLogs\<close>); package \<open>conf\<close> supplies \<open>ContractConfig\<close>.
  Several Go structs share the field name \<open>Name\<close>; the records below prefix the fields of
  all but \<open>ParsedParameter\<close> and \<open>ParsedTxData\<close>.
\<close>

type_synonym byte = "8 word"

text \<open>\<open>conf.ContractConfig\<close>: a descriptor file path and the name it is loaded under.\<close>

record ContractConfig =
  cc_Path :: string
  cc_Name :: string

text \<open>
  \<open>abi.Argument\<close>, \<open>abi.Method\<close> and \<open>abi.Event\<close> of go-ethereum, with the fields the
  program reads. An argument's type is kept as the text \<open>Type.String()\<close> returns.
\<close>

record Argument =
  arg_Name :: string
  arg_Type :: string
  arg_Indexed :: bool

record Method =
  m_Name :: string
  m_Sig :: string
  m_Inputs :: "Argument list"

record Event =
  ev_Name :: string
  ev_Sig :: string
  ev_Inputs :: "Argument list"

text \<open>
  \<open>abi.ABI\<close> is a go-ethereum value; the program only calls its two lookups, so a parsed
  descriptor is represented by them. A Go \<open>error\<close> is its message, on the left of a sum.
  go-ethereum's lookups range over the Go maps \<open>abi.Methods\<close> and \<open>abi.Events\<close>: when two
  members of one descriptor share a selector or topic, two calls may return different
  members. An \<open>ABI\<close> value therefore holds the answers the lookups give during one call of
  a parser, and the theorems below speak of one call each.
\<close>

record ABI =
  MethodById :: "byte list \<Rightarrow> string + Method"
  EventByID :: "byte list \<Rightarrow> string + Event"

text \<open>\<open>ContractInfo\<close>: contract name and its ABI.\<close>

record ContractInfo =
  ci_Name :: string
  ci_ABI :: ABI

text \<open>\<open>ParsedParameter\<close>. \<open>Value\<close> is an \<open>interface{}\<close> in Go that always holds the
  string returned by \<open>formatValue\<close>.\<close>

record ParsedParameter =
  Name :: string
  Type :: string
  Value :: string
  Indexed :: bool

text \<open>\<open>ParsedTxData\<close>. A nil \<open>Parameters\<close> slice is the empty list, an unset string is
  the empty string.\<close>

record ParsedTxData =
  MethodName :: string
  MethodSignature :: string
  Parameters :: "ParsedParameter list"
  Error :: string

text \<open>\<open>type ContractABIs map[string]ContractInfo\<close>.\<close>

type_synonym ContractABIs = "string \<rightharpoonup> ContractInfo"

text \<open>
  A decoded raw value is a Go \<open>interface{}\<close>. \<open>formatValue\<close> switches on its dynamic type:
  \<open>common.Address\<close>, \<open>[]byte\<close>, \<open>string\<close>, anything else. go-ethereum decodes the ABI
  type \<open>bytes\<close> to a byte slice \<open>[]byte\<close> (\<open>GoBytes\<close>) and the fixed-size types
  \<open>bytes1\<close> to \<open>bytes32\<close> to a byte array \<open>[N]byte\<close> (\<open>GoByteArray\<close>), which is a
  different dynamic type. Values of any other dynamic type (\<open>*big.Int\<close>, \<open>bool\<close>, slices,
  structs) are \<open>GoOther\<close> with a payload of an arbitrary type \<open>'v\<close>.
\<close>

datatype 'v go_value =
  GoAddress "byte list"
| GoBytes "byte list"
| GoString string
| GoByteArray "byte list"
| GoOther 'v

text \<open>
  The functions of go-ethereum and of the Go standard library that the program calls and
  whose code is outside the repository are parameters:
  \<^item> \<open>Unpack\<close>: \<open>Arguments.Unpack(data)\<close>, the decoded values or an error;
  \<^item> \<open>UnpackIntoMap\<close>: \<open>Arguments.UnpackIntoMap(v, data)\<close>, the map \<open>v\<close> after the call
    or an error;
  \<^item> \<open>Address_Hex\<close>: \<open>common.Address.Hex()\<close>;
  \<^item> \<open>Hash_Hex\<close>: \<open>common.Hash.Hex()\<close>;
  \<^item> \<open>Sprintf_v\<close>: \<open>fmt.Sprintf("%v", v)\<close> on the value \<open>v\<close>.
\<close>

record 'v geth =
  Unpack :: "Argument list \<Rightarrow> byte list \<Rightarrow> string + 'v go_value list"
  UnpackIntoMap :: "Argument list \<Rightarrow> (string \<rightharpoonup> 'v go_value) \<Rightarrow> byte list
                      \<Rightarrow> string + (string \<rightharpoonup> 'v go_value)"
  Address_Hex :: "byte list \<Rightarrow> string"
  Hash_Hex :: "byte list \<Rightarrow> string"
  Sprintf_v :: "'v go_value \<Rightarrow> string"

section \<open>Loading the descriptors\<close>

text \<open>
  \<open>LoadContractABIs\<close> returns a pair \<open>(*ContractABIs, error)\<close>: \<open>None\<close> is \<open>nil\<close>.
  \<open>ReadFile\<close> is \<open>os.ReadFile\<close> on the file system of the call and \<open>JSON\<close> is
  \<open>abi.JSON\<close>. The loop carries the map built so far.
\<close>

fun LoadContractABIs_loop ::
  "(string \<Rightarrow> string + string) \<Rightarrow> (string \<Rightarrow> string + ABI) \<Rightarrow> ContractABIs
     \<Rightarrow> ContractConfig list \<Rightarrow> ContractABIs option \<times> string option" where
  "LoadContractABIs_loop ReadFile JSON contractABIs [] = (Some contractABIs, None)"
| "LoadContractABIs_loop ReadFile JSON contractABIs (contract # rest) =
     (case ReadFile (cc_Path contract) of
        Inl err \<Rightarrow>
          (None, Some (''failed to read ABI file '' @ cc_Path contract @ '': '' @ err))
      | Inr abiBytes \<Rightarrow>
          (case JSON abiBytes of
             Inl err \<Rightarrow>
               (None, Some (''failed to parse ABI for contract '' @ cc_Name contract
                              @ '': '' @ err))
           | Inr contractABI \<Rightarrow>
               LoadContractABIs_loop ReadFile JSON
                 (contractABIs(cc_Name contract \<mapsto>
                    \<lparr>ci_Name = cc_Name contract, ci_ABI = contractABI\<rparr>))
                 rest))"

definition LoadContractABIs ::
  "(string \<Rightarrow> string + string) \<Rightarrow> (string \<Rightarrow> string + ABI) \<Rightarrow> ContractConfig list
     \<Rightarrow> ContractABIs option \<times> string option" where
  "LoadContractABIs ReadFile JSON contracts =
     LoadContractABIs_loop ReadFile JSON Map.empty contracts"

section \<open>Formatting values\<close>

text \<open>
  Modelled from the spec: \<open>common.Bytes2Hex\<close> belongs to go-ethereum and is not under
  \<open>src/\<close>; it renders each byte as two digits of \<open>0123456789abcdef\<close>, high nibble first,
  and adds no prefix.
\<close>

definition hextable :: string where
  "hextable = ''0123456789abcdef''"

fun Bytes2Hex :: "byte list \<Rightarrow> string" where
  "Bytes2Hex [] = []"
| "Bytes2Hex (v # rest) =
     hextable ! (unat v div 16) # hextable ! (unat v mod 16) # Bytes2Hex rest"

text \<open>The last equation is the \<open>default\<close> case of the type switch.\<close>

fun formatValue :: "'v geth \<Rightarrow> 'v go_value \<Rightarrow> string" where
  "formatValue L (GoAddress v) = Address_Hex L v"
| "formatValue L (GoBytes v) = Bytes2Hex v"
| "formatValue L (GoString v) = v"
| "formatValue L v = Sprintf_v L v"

section \<open>Iterating over the registry\<close>


section \<open>Transactions\<close>

text \<open>The loop that builds the parameter list: \<open>i\<close> is the index of \<open>range\<close>.\<close>

fun tx_parameters ::
  "'v geth \<Rightarrow> 'v go_value list \<Rightarrow> nat \<Rightarrow> Argument list \<Rightarrow> ParsedParameter list" where
  "tx_parameters L inputs i [] = []"
| "tx_parameters L inputs i (input # rest) =
     (if i < length inputs
      then \<lparr>Name = arg_Name input, Type = arg_Type input,
            Value = formatValue L (inputs ! i), Indexed = False\<rparr>
           # tx_parameters L inputs (i + 1) rest
      else tx_parameters L inputs (i + 1) rest)"

text \<open>The body of the loop over the registry once \<open>MethodById\<close> has returned a method.\<close>

definition ParseTransactionData_found :: "'v geth \<Rightarrow> Method \<Rightarrow> byte list \<Rightarrow> ParsedTxData" where
  "ParseTransactionData_found L method data =
     (case Unpack L (m_Inputs method) (drop 4 data) of
        Inl err \<Rightarrow>
          \<lparr>MethodName = m_Name method, MethodSignature = m_Sig method,
           Parameters = [], Error = ''failed to unpack inputs: '' @ err\<rparr>
      | Inr inputs \<Rightarrow>
          \<lparr>MethodName = m_Name method, MethodSignature = m_Sig method,
           Parameters = tx_parameters L inputs 0 (m_Inputs method), Error = ''''\<rparr>)"

fun ParseTransactionData_loop ::
  "'v geth \<Rightarrow> ContractABIs \<Rightarrow> byte list \<Rightarrow> string list \<Rightarrow> ParsedTxData" where
  "ParseTransactionData_loop L contractABIs data [] =
     \<lparr>MethodName = '''', MethodSignature = '''', Parameters = [],
      Error = ''method not found in any loaded contract ABI''\<rparr>"
| "ParseTransactionData_loop L contractABIs data (k # ks) =
     (case contractABIs k of
        None \<Rightarrow> ParseTransactionData_loop L contractABIs data ks
      | Some contractInfo \<Rightarrow>
          (case MethodById (ci_ABI contractInfo) (take 4 data) of
             Inl err \<Rightarrow> ParseTransactionData_loop L contractABIs data ks
           | Inr method \<Rightarrow> ParseTransactionData_found L method data))"

text \<open>\<open>order\<close> is the order in which this call's \<open>range\<close> visits the keys of the map.\<close>

definition ParseTransactionData ::
  "'v geth \<Rightarrow> ContractABIs \<Rightarrow> string list \<Rightarrow> byte list \<Rightarrow> ParsedTxData" where
  "ParseTransactionData L contractABIs order data =
     (if length data < 4
      then \<lparr>MethodName = '''', MethodSignature = '''', Parameters = [],
            Error = ''transaction data too short''\<rparr>
      else ParseTransactionData_loop L contractABIs data order)"

section \<open>Event logs\<close>

text \<open>
  The loop over the indexed parameters: the state is the map \<open>eventData\<close> and
  \<open>topicIndex\<close>.
\<close>

fun indexed_loop ::
  "'v geth \<Rightarrow> byte list list \<Rightarrow> Argument list \<Rightarrow> (string \<rightharpoonup> 'v go_value) \<times> nat
     \<Rightarrow> (string \<rightharpoonup> 'v go_value) \<times> nat" where
  "indexed_loop L topics [] (eventData, topicIndex) = (eventData, topicIndex)"
| "indexed_loop L topics (input # rest) (eventData, topicIndex) =
     (if arg_Indexed input \<and> topicIndex < length topics
      then indexed_loop L topics rest
             (eventData(arg_Name input \<mapsto> GoString (Hash_Hex L (topics ! topicIndex))),
              topicIndex + 1)
      else indexed_loop L topics rest (eventData, topicIndex))"

text \<open>The loop that builds the parameter list from \<open>eventData\<close>.\<close>

fun event_parameters ::
  "'v geth \<Rightarrow> (string \<rightharpoonup> 'v go_value) \<Rightarrow> Argument list \<Rightarrow> ParsedParameter list" where
  "event_parameters L eventData [] = []"
| "event_parameters L eventData (input # rest) =
     (case eventData (arg_Name input) of
        Some v \<Rightarrow>
          \<lparr>Name = arg_Name input, Type = arg_Type input,
           Value = formatValue L v, Indexed = arg_Indexed input\<rparr>
          # event_parameters L eventData rest
      | None \<Rightarrow> event_parameters L eventData rest)"

text \<open>
  The non-indexed part: \<open>nonIndexedArgs\<close> has one entry per non-indexed input, and
  \<open>UnpackIntoMap\<close> is called on the empty \<open>eventData\<close> only when both the data and
  \<open>nonIndexedArgs\<close> are non-empty.
\<close>

definition unpack_event_data ::
  "'v geth \<Rightarrow> Event \<Rightarrow> byte list \<Rightarrow> string + (string \<rightharpoonup> 'v go_value)" where
  "unpack_event_data L event data =
     (if length data > 0
      then (let nonIndexedArgs = filter (\<lambda>input. \<not> arg_Indexed input) (ev_Inputs event)
            in if length nonIndexedArgs > 0
               then UnpackIntoMap L (ev_Inputs event) Map.empty data
               else Inr Map.empty)
      else Inr Map.empty)"

text \<open>The body of the loop over the registry once \<open>EventByID\<close> has returned an event.\<close>

definition ParseEventLogs_found ::
  "'v geth \<Rightarrow> Event \<Rightarrow> byte list list \<Rightarrow> byte list \<Rightarrow> ParsedTxData" where
  "ParseEventLogs_found L event topics data =
     (case unpack_event_data L event data of
        Inl err \<Rightarrow>
          \<lparr>MethodName = ev_Name event, MethodSignature = '''',
           Parameters = [], Error = ''failed to unpack event data: '' @ err\<rparr>
      | Inr eventData \<Rightarrow>
          \<lparr>MethodName = ev_Name event, MethodSignature = ev_Sig event,
           Parameters =
             event_parameters L
               (fst (indexed_loop L topics (ev_Inputs event) (eventData, 1)))
               (ev_Inputs event),
           Error = ''''\<rparr>)"

fun ParseEventLogs_loop ::
  "'v geth \<Rightarrow> ContractABIs \<Rightarrow> byte list list \<Rightarrow> byte list \<Rightarrow> string list \<Rightarrow> ParsedTxData" where
  "ParseEventLogs_loop L contractABIs topics data [] =
     \<lparr>MethodName = '''', MethodSignature = '''', Parameters = [],
      Error = ''event not found in any loaded contract ABI''\<rparr>"
| "ParseEventLogs_loop L contractABIs topics data (k # ks) =
     (case contractABIs k of
        None \<Rightarrow> ParseEventLogs_loop L contractABIs topics data ks
      | Some contractInfo \<Rightarrow>
          (case EventByID (ci_ABI contractInfo) (hd topics) of
             Inl err \<Rightarrow> ParseEventLogs_loop L contractABIs topics data ks
           | Inr event \<Rightarrow> ParseEventLogs_found L event topics data))"

text \<open>\<open>topics[0]\<close> is read only after the check that the list is not empty.\<close>

definition ParseEventLogs ::
  "'v geth \<Rightarrow> ContractABIs \<Rightarrow> string list \<Rightarrow> byte list list \<Rightarrow> byte list \<Rightarrow> ParsedTxData" where
  "ParseEventLogs L contractABIs order topics data =
     (if length topics = 0
      then \<lparr>MethodName = '''', MethodSignature = '''', Parameters = [],
            Error = ''no topics in log''\<rparr>
      else ParseEventLogs_loop L contractABIs topics data order)"

section \<open>Resolution\<close>

text \<open>
  What the loop over the registry looks for: the member returned by the first descriptor,
  in the order of the iteration, whose lookup succeeds. The loops above are related to
  these two functions by \<open>tx_loop_first_method\<close> and \<open>event_loop_first_event\<close>.
\<close>

fun first_method :: "ContractABIs \<Rightarrow> string list \<Rightarrow> byte list \<Rightarrow> Method option" where
  "first_method contractABIs [] methodID = None"
| "first_method contractABIs (k # ks) methodID =
     (case contractABIs k of
        None \<Rightarrow> first_method contractABIs ks methodID
      | Some contractInfo \<Rightarrow>
          (case MethodById (ci_ABI contractInfo) methodID of
             Inl err \<Rightarrow> first_method contractABIs ks methodID
           | Inr method \<Rightarrow> Some method))"

fun first_event :: "ContractABIs \<Rightarrow> string list \<Rightarrow> byte list \<Rightarrow> Event option" where
  "first_event contractABIs [] eventID = None"
| "first_event contractABIs (k # ks) eventID =
     (case contractABIs k of
        None \<Rightarrow> first_event contractABIs ks eventID
      | Some contractInfo \<Rightarrow>
          (case EventByID (ci_ABI contractInfo) eventID of
             Inl err \<Rightarrow> first_event contractABIs ks eventID
           | Inr event \<Rightarrow> Some event))"



section \<open>Concrete inputs\<close>

text \<open>
  A stand-in for the library, to run the functions on concrete inputs: its decoder only
  checks that the data holds a 32-byte word for each non-indexed argument and returns a
  placeholder for each of them (go-ethereum's \<open>Unpack\<close> too returns values for the
  non-indexed arguments only). Its \<open>%v\<close> prints a byte array as \<open>fmt\<close> does, the bytes as
  decimal numbers separated by spaces between brackets, and a placeholder otherwise.
\<close>

definition decimal :: "nat \<Rightarrow> string" where
  "decimal n =
     (if n < 10 then [''0123456789'' ! n]
      else if n < 100 then [''0123456789'' ! (n div 10), ''0123456789'' ! (n mod 10)]
      else [''0123456789'' ! (n div 100), ''0123456789'' ! (n div 10 mod 10),
            ''0123456789'' ! (n mod 10)])"

fun spaced :: "string list \<Rightarrow> string" where
  "spaced [] = []"
| "spaced [x] = x"
| "spaced (x # y # rest) = x @ '' '' @ spaced (y # rest)"

definition toy_Sprintf_v :: "unit go_value \<Rightarrow> string" where
  "toy_Sprintf_v v =
     (case v of
        GoByteArray bs \<Rightarrow> ''['' @ spaced (map (\<lambda>b. decimal (unat b)) bs) @ '']''
      | _ \<Rightarrow> ''_'')"

definition toy_geth :: "unit geth" where
  "toy_geth =
     \<lparr>Unpack = (\<lambda>args data.
        let nonIndexed = filter (\<lambda>a. \<not> arg_Indexed a) args
        in if length data < 32 * length nonIndexed
           then Inl ''abi: length insufficient''
           else Inr (map (\<lambda>a. GoOther ()) nonIndexed)),
      UnpackIntoMap = (\<lambda>args v data.
        let nonIndexed = filter (\<lambda>a. \<not> arg_Indexed a) args
        in if length data < 32 * length nonIndexed
           then Inl ''abi: length insufficient''
           else Inr (fold (\<lambda>a m. m(arg_Name a \<mapsto> GoOther ())) nonIndexed v)),
      Address_Hex = (\<lambda>a. ''0x'' @ Bytes2Hex a),
      Hash_Hex = (\<lambda>h. ''0x'' @ Bytes2Hex h),
      Sprintf_v = toy_Sprintf_v\<rparr>"

text \<open>A token contract with \<open>transfer(address,uint256)\<close>, \<open>pause()\<close> and the event
  \<open>Transfer(address indexed, address indexed, uint256)\<close>.\<close>

definition transfer_method :: Method where
  "transfer_method =
     \<lparr>m_Name = ''transfer'', m_Sig = ''transfer(address,uint256)'',
      m_Inputs = [\<lparr>arg_Name = ''to'', arg_Type = ''address'', arg_Indexed = False\<rparr>,
                  \<lparr>arg_Name = ''amount'', arg_Type = ''uint256'', arg_Indexed = False\<rparr>]\<rparr>"

definition pause_method :: Method where
  "pause_method = \<lparr>m_Name = ''pause'', m_Sig = ''pause()'', m_Inputs = []\<rparr>"

definition Transfer_event :: Event where
  "Transfer_event =
     \<lparr>ev_Name = ''Transfer'', ev_Sig = ''Transfer(address,address,uint256)'',
      ev_Inputs = [\<lparr>arg_Name = ''from'', arg_Type = ''address'', arg_Indexed = True\<rparr>,
                   \<lparr>arg_Name = ''to'', arg_Type = ''address'', arg_Indexed = True\<rparr>,
                   \<lparr>arg_Name = ''value'', arg_Type = ''uint256'', arg_Indexed = False\<rparr>]\<rparr>"

definition transfer_id :: "byte list" where
  "transfer_id = [0xA9, 0x05, 0x9C, 0xBB]"

definition pause_id :: "byte list" where
  "pause_id = [0x84, 0x56, 0xCB, 0x59]"

definition Transfer_topic :: "byte list" where
  "Transfer_topic =
     [0xDD, 0xF2, 0x52, 0xAD, 0x1B, 0xE2, 0xC8, 0x9B,
      0x69, 0xC2, 0xB0, 0x68, 0xFC, 0x37, 0x8D, 0xAA,
      0x95, 0x2B, 0xA7, 0xF1, 0x63, 0xC4, 0xA1, 0x16,
      0x28, 0xF5, 0x5A, 0x4D, 0xF5, 0x23, 0xB3, 0xEF]"

definition from_topic :: "byte list" where
  "from_topic =
     [0x00, 0x00, 0x00, 0x00, 0x00, 0x00, 0x00, 0x00,
      0x00, 0x00, 0x00, 0x00, 0xAB, 0x58, 0x01, 0xA7,
      0xD3, 0x98, 0x35, 0x1B, 0x8B, 0xE1, 0x1C, 0x43,
      0x9E, 0x05, 0xC5, 0xB3, 0x25, 0x9A, 0xEC, 0x9B]"

definition to_topic :: "byte list" where
  "to_topic =
     [0x00, 0x00, 0x00, 0x00, 0x00, 0x00, 0x00, 0x00,
      0x00, 0x00, 0x00, 0x00, 0x1D, 0xB3, 0x43, 0x9A,
      0x22, 0x2C, 0x51, 0x9A, 0xB4, 0x4B, 0xB1, 0x14,
      0x4F, 0xC2, 0x81, 0x67, 0xB4, 0xFA, 0x6E, 0xE6]"

definition token_abi :: ABI where
  "token_abi =
     \<lparr>MethodById = (\<lambda>sigdata.
        if sigdata = transfer_id then Inr transfer_method
        else if sigdata = pause_id then Inr pause_method
        else Inl ''no method with id''),
      EventByID = (\<lambda>topic.
        if topic = Transfer_topic then Inr Transfer_event
        else Inl ''no event with id'')\<rparr>"

text \<open>A second token whose \<open>transfer(address,uint256)\<close> names its inputs differently:
  same signature, hence the same selector.\<close>

definition transfer_method2 :: Method where
  "transfer_method2 =
     \<lparr>m_Name = ''transfer'', m_Sig = ''transfer(address,uint256)'',
      m_Inputs = [\<lparr>arg_Name = ''recipient'', arg_Type = ''address'', arg_Indexed = False\<rparr>,
                  \<lparr>arg_Name = ''value'', arg_Type = ''uint256'', arg_Indexed = False\<rparr>]\<rparr>"

definition coin_abi :: ABI where
  "coin_abi =
     \<lparr>MethodById = (\<lambda>sigdata.
        if sigdata = transfer_id then Inr transfer_method2
        else Inl ''no method with id''),
      EventByID = (\<lambda>topic. Inl ''no event with id'')\<rparr>"




text \<open>A descriptor whose method \<open>set(uint256,uint256)\<close> has its first input flagged
  \<open>indexed\<close>, which \<open>abi.JSON\<close> accepts on a function input.\<close>

definition set_method :: Method where
  "set_method =
     \<lparr>m_Name = ''set'', m_Sig = ''set(uint256,uint256)'',
      m_Inputs = [\<lparr>arg_Name = ''key'', arg_Type = ''uint256'', arg_Indexed = True\<rparr>,
                  \<lparr>arg_Name = ''value'', arg_Type = ''uint256'', arg_Indexed = False\<rparr>]\<rparr>"

definition set_id :: "byte list" where
  "set_id = [0x1A, 0xB0, 0x6E, 0xE5]"

definition store_abi :: ABI where
  "store_abi =
     \<lparr>MethodById = (\<lambda>sigdata.
        if sigdata = set_id then Inr set_method
        else Inl ''no method with id''),
      EventByID = (\<lambda>topic. Inl ''no event with id'')\<rparr>"

definition store_registry :: ContractABIs where
  "store_registry = [''Store'' \<mapsto> \<lparr>ci_Name = ''Store'', ci_ABI = store_abi\<rparr>]"

text \<open>A file system with two descriptor files, and a parser that knows their contents.\<close>

definition toy_ReadFile :: "string \<Rightarrow> string + string" where
  "toy_ReadFile path =
     (if path = ''token.json'' then Inr ''token''
      else if path = ''coin.json'' then Inr ''coin''
      else if path = ''broken.json'' then Inr ''{''
      else Inl ''no such file or directory'')"

definition toy_JSON :: "string \<Rightarrow> string + ABI" where
  "toy_JSON text =
     (if text = ''token'' then Inr token_abi
      else if text = ''coin'' then Inr coin_abi
      else Inl ''unexpected end of JSON input'')"

definition token_registry :: ContractABIs where
  "token_registry = [''Token'' \<mapsto> \<lparr>ci_Name = ''Token'', ci_ABI = token_abi\<rparr>]"



section \<open>Lemmas\<close>

lemma tx_loop_first_method:
  "ParseTransactionData_loop L abis data order =
     (case first_method abis order (take 4 data) of
        None \<Rightarrow> \<lparr>MethodName = '''', MethodSignature = '''', Parameters = [],
                  Error = ''method not found in any loaded contract ABI''\<rparr>
      | Some method \<Rightarrow> ParseTransactionData_found L method data)"
  by (induction order) (auto split: option.splits sum.splits)

lemma tx_parameters_zip:
  "i + length args = length vals \<Longrightarrow>
   tx_parameters L vals i args =
     map (\<lambda>(input, v). \<lparr>Name = arg_Name input, Type = arg_Type input,
                          Value = formatValue L v, Indexed = False\<rparr>)
         (zip args (drop i vals))"
proof (induction args arbitrary: i)
  case Nil
  then show ?case by simp
next
  case (Cons a args)
  then have i: "i < length vals" by simp
  then have d: "drop i vals = vals ! i # drop (Suc i) vals"
    by (simp add: Cons_nth_drop_Suc)
  from Cons have "tx_parameters L vals (i + 1) args =
     map (\<lambda>(input, v). \<lparr>Name = arg_Name input, Type = arg_Type input,
                          Value = formatValue L v, Indexed = False\<rparr>)
         (zip args (drop (i + 1) vals))"
    by simp
  with i d show ?case by simp
qed

lemma Bytes2Hex_length: "length (Bytes2Hex bs) = 2 * length bs"
  by (induction bs) auto

lemma hextable_nth: "n < 16 \<Longrightarrow> hextable ! n \<in> set hextable"
proof -
  assume "n < 16"
  then have "n < length hextable" by (simp add: hextable_def)
  then show ?thesis by (rule nth_mem)
qed

lemma Bytes2Hex_digits: "set (Bytes2Hex bs) \<subseteq> set hextable"
proof (induction bs)
  case Nil
  then show ?case by simp
next
  case (Cons v bs)
  have "unat v < 2 ^ LENGTH(8)" by (rule unsigned_less)
  then have "unat v < 256" by simp
  then have "unat v div 16 < 16" by simp
  moreover have "unat v mod 16 < 16" by simp
  ultimately show ?case using Cons by (simp add: hextable_nth)
qed

lemma Bytes2Hex_no_prefix: "take 2 (Bytes2Hex bs) \<noteq> ''0x''"
proof
  assume a: "take 2 (Bytes2Hex bs) = ''0x''"
  have "set (take 2 (Bytes2Hex bs)) \<subseteq> set hextable"
    using Bytes2Hex_digits set_take_subset by fastforce
  with a show False by (simp add: hextable_def)
qed

lemma load_fail:
  "\<exists>c \<in> set contracts. isl (rf (cc_Path c)) \<or> (\<exists>b. rf (cc_Path c) = Inr b \<and> isl (js b)) \<Longrightarrow>
   \<exists>e. LoadContractABIs_loop rf js m contracts = (None, Some e)"
proof (induction contracts arbitrary: m)
  case Nil
  then show ?case by simp
next
  case (Cons c cs)
  show ?case
  proof (cases "rf (cc_Path c)")
    case (Inl e)
    then show ?thesis by simp
  next
    case (Inr b)
    show ?thesis
    proof (cases "js b")
      case (Inl e)
      with Inr show ?thesis by simp
    next
      case r: (Inr a)
      with Inr Cons.prems have "\<exists>c \<in> set cs. isl (rf (cc_Path c)) \<or> (\<exists>b. rf (cc_Path c) = Inr b \<and> isl (js b))"
        by auto
      from Cons.IH [OF this] Inr r show ?thesis by simp
    qed
  qed
qed


lemma tx_zip_names:
  "length ys = length xs \<Longrightarrow>
   map Name (map (\<lambda>(input, v). \<lparr>Name = arg_Name input, Type = arg_Type input,
                                   Value = formatValue L v, Indexed = False\<rparr>) (zip xs ys))
     = map arg_Name xs \<and>
   map Type (map (\<lambda>(input, v). \<lparr>Name = arg_Name input, Type = arg_Type input,
                                   Value = formatValue L v, Indexed = False\<rparr>) (zip xs ys))
     = map arg_Type xs"
  by (induction ys xs rule: list_induct2) auto

lemma event_loop_first_event:
  "ParseEventLogs_loop L abis topics data order =
     (case first_event abis order (hd topics) of
        None \<Rightarrow> \<lparr>MethodName = '''', MethodSignature = '''', Parameters = [],
                  Error = ''event not found in any loaded contract ABI''\<rparr>
      | Some event \<Rightarrow> ParseEventLogs_found L event topics data)"
  by (induction order) (auto split: option.splits sum.splits)



lemma found_tx_never_both:
  "Error (ParseTransactionData_found L method data) = '''' \<or>
   Parameters (ParseTransactionData_found L method data) = []"
  by (simp add: ParseTransactionData_found_def split: sum.splits)

lemma found_event_never_both:
  "Error (ParseEventLogs_found L event topics data) = '''' \<or>
   Parameters (ParseEventLogs_found L event topics data) = []"
  by (simp add: ParseEventLogs_found_def split: sum.splits)






section \<open>The claims\<close>

subsection \<open>C1: the record of a failed event decode\<close>

text \<open>
  C1 says that when an event is matched and decoding its data fails, the record of
  \<open>ParseEventLogs\<close> carries the event's name and its signature with the error. The
  failure branch of \<open>ParseEventLogs\<close> sets \<open>MethodName\<close> and \<open>Error\<close> only: on a
  \<open>Transfer\<close> log whose one-byte data does not decode, the record has the name, the error
  and an empty signature, although the matched event's signature is
  \<open>Transfer(address,address,uint256)\<close>. The failure branch of \<open>ParseTransactionData\<close>
  and the success branch of \<open>ParseEventLogs\<close> both set the signature.
\<close>

theorem ParseEventLogs_unpack_failure_loses_signature:
  "ParseEventLogs toy_geth token_registry [''Token''] [Transfer_topic, from_topic, to_topic] [0x01] =
     \<lparr>MethodName = ''Transfer'', MethodSignature = '''', Parameters = [],
      Error = ''failed to unpack event data: abi: length insufficient''\<rparr> \<and>
   first_event token_registry [''Token''] Transfer_topic = Some Transfer_event \<and>
   ev_Sig Transfer_event = ''Transfer(address,address,uint256)''"
  by (simp add: ParseEventLogs_def event_loop_first_event ParseEventLogs_found_def
        unpack_event_data_def token_registry_def token_abi_def Transfer_event_def toy_geth_def)

subsection \<open>C2: the order of resolution\<close>




subsection \<open>C3: parameters or error\<close>

text \<open>
  C3 says that every returned record populates exactly one of the parameter list and the
  error string. A successful call of \<open>pause()\<close>, which has no inputs, and a matched log
  with neither data nor topics beyond the first populate neither.
\<close>

theorem exactly_one_counterexample:
  "MethodName (ParseTransactionData toy_geth token_registry [''Token''] pause_id) = ''pause'' \<and>
   Parameters (ParseTransactionData toy_geth token_registry [''Token''] pause_id) = [] \<and>
   Error (ParseTransactionData toy_geth token_registry [''Token''] pause_id) = '''' \<and>
   MethodName (ParseEventLogs toy_geth token_registry [''Token''] [Transfer_topic] [])
     = ''Transfer'' \<and>
   Parameters (ParseEventLogs toy_geth token_registry [''Token''] [Transfer_topic] []) = [] \<and>
   Error (ParseEventLogs toy_geth token_registry [''Token''] [Transfer_topic] []) = ''''"
proof -
  have m: "first_method token_registry [''Token''] (take 4 pause_id) = Some pause_method"
    by (simp add: token_registry_def token_abi_def pause_id_def transfer_id_def)
  have e: "first_event token_registry [''Token''] Transfer_topic = Some Transfer_event"
    by (simp add: token_registry_def token_abi_def)
  have t: "ParseTransactionData toy_geth token_registry [''Token''] pause_id =
             \<lparr>MethodName = ''pause'', MethodSignature = ''pause()'', Parameters = [],
              Error = ''''\<rparr>"
    using m
    by (simp add: ParseTransactionData_def tx_loop_first_method ParseTransactionData_found_def)
       (simp add: pause_id_def pause_method_def toy_geth_def)
  have l: "ParseEventLogs toy_geth token_registry [''Token''] [Transfer_topic] [] =
             \<lparr>MethodName = ''Transfer'', MethodSignature = ''Transfer(address,address,uint256)'',
              Parameters = [], Error = ''''\<rparr>"
    using e
    by (simp add: ParseEventLogs_def event_loop_first_event ParseEventLogs_found_def
          unpack_event_data_def)
       (simp add: Transfer_event_def)
  from t l show ?thesis by simp
qed

text \<open>
  C3 as amended: for every input to \<open>ParseTransactionData\<close> and \<open>ParseEventLogs\<close>, the
  returned record never has both a non-empty parameter list and a non-empty error string:
  the error is empty or the parameter list is.
\<close>

theorem never_parameters_and_error:
  "(Error (ParseTransactionData L contractABIs order data) = '''' \<or>
    Parameters (ParseTransactionData L contractABIs order data) = []) \<and>
   (Error (ParseEventLogs L contractABIs order topics data') = '''' \<or>
    Parameters (ParseEventLogs L contractABIs order topics data') = [])"
proof
  show "Error (ParseTransactionData L contractABIs order data) = '''' \<or>
        Parameters (ParseTransactionData L contractABIs order data) = []"
    using found_tx_never_both [of L _ data]
    by (simp add: ParseTransactionData_def tx_loop_first_method split: option.splits)
  show "Error (ParseEventLogs L contractABIs order topics data') = '''' \<or>
        Parameters (ParseEventLogs L contractABIs order topics data') = []"
    using found_event_never_both [of L _ topics data']
    by (simp add: ParseEventLogs_def event_loop_first_event split: option.splits)
qed

subsection \<open>C4: a matched method whose inputs do not unpack\<close>

text \<open>
  C4: when the call data has at least four bytes, the first descriptor in the iteration
  that knows the selector returns \<open>method\<close>, and unpacking the remaining bytes fails,
  \<open>ParseTransactionData\<close> returns the method's name and signature, an empty parameter list
  and a non-empty error.
\<close>

theorem ParseTransactionData_unpack_failure:
  assumes "4 \<le> length data"
    and "first_method contractABIs order (take 4 data) = Some method"
    and "Unpack L (m_Inputs method) (drop 4 data) = Inl err"
  shows "ParseTransactionData L contractABIs order data =
           \<lparr>MethodName = m_Name method, MethodSignature = m_Sig method,
            Parameters = [], Error = ''failed to unpack inputs: '' @ err\<rparr> \<and>
         Error (ParseTransactionData L contractABIs order data) \<noteq> ''''"
  using assms
  by (simp add: ParseTransactionData_def tx_loop_first_method ParseTransactionData_found_def)

theorem ParseTransactionData_unpack_failure_witness:
  "4 \<le> length (transfer_id @ [0x00, 0x01]) \<and>
   first_method token_registry [''Token''] (take 4 (transfer_id @ [0x00, 0x01]))
     = Some transfer_method \<and>
   Unpack toy_geth (m_Inputs transfer_method) (drop 4 (transfer_id @ [0x00, 0x01]))
     = Inl ''abi: length insufficient'' \<and>
   ParseTransactionData toy_geth token_registry [''Token''] (transfer_id @ [0x00, 0x01]) =
     \<lparr>MethodName = ''transfer'', MethodSignature = ''transfer(address,uint256)'',
      Parameters = [], Error = ''failed to unpack inputs: abi: length insufficient''\<rparr>"
proof -
  have a: "4 \<le> length (transfer_id @ [0x00, 0x01])"
    by (simp add: transfer_id_def)
  have b: "first_method token_registry [''Token''] (take 4 (transfer_id @ [0x00, 0x01]))
             = Some transfer_method"
    by (simp add: token_registry_def token_abi_def transfer_id_def)
  have c: "Unpack toy_geth (m_Inputs transfer_method) (drop 4 (transfer_id @ [0x00, 0x01]))
             = Inl ''abi: length insufficient''"
    by (simp add: toy_geth_def transfer_method_def transfer_id_def)
  from ParseTransactionData_unpack_failure [OF a b c] a b c show ?thesis
    by (simp add: transfer_method_def)
qed

subsection \<open>C5: fewer topics than indexed parameters\<close>




subsection \<open>C6: one parameter per declared input\<close>

text \<open>
  C6 says that every call whose method matches and whose parameters decode yields one
  parameter per declared input. \<open>Unpack\<close> returns values for the non-indexed arguments
  only and the loop emits a parameter only while \<open>i < len(inputs)\<close>: for a method with two
  declared inputs, the first flagged \<open>indexed\<close>, decoding succeeds with one value and the
  record has one parameter and an empty error.
\<close>

theorem one_per_input_counterexample:
  "first_method store_registry [''Store''] (take 4 (set_id @ replicate 32 0)) = Some set_method \<and>
   length (m_Inputs set_method) = 2 \<and>
   Unpack toy_geth (m_Inputs set_method) (drop 4 (set_id @ replicate 32 0)) = Inr [GoOther ()] \<and>
   Error (ParseTransactionData toy_geth store_registry [''Store''] (set_id @ replicate 32 0)) = '''' \<and>
   map Name (Parameters (ParseTransactionData toy_geth store_registry [''Store'']
                           (set_id @ replicate 32 0))) = [''key'']"
proof -
  have a: "first_method store_registry [''Store''] (take 4 (set_id @ replicate 32 0))
             = Some set_method"
    by (simp add: store_registry_def store_abi_def set_id_def)
  have b: "Unpack toy_geth (m_Inputs set_method) (drop 4 (set_id @ replicate 32 0))
             = Inr [GoOther ()]"
    by (simp add: toy_geth_def set_method_def set_id_def)
  have c: "ParseTransactionData toy_geth store_registry [''Store''] (set_id @ replicate 32 0) =
             \<lparr>MethodName = ''set'', MethodSignature = ''set(uint256,uint256)'',
              Parameters = tx_parameters toy_geth [GoOther ()] 0 (m_Inputs set_method),
              Error = ''''\<rparr>"
    using a b
    by (simp add: ParseTransactionData_def tx_loop_first_method ParseTransactionData_found_def)
       (simp add: set_id_def set_method_def)
  from a b c show ?thesis by (simp add: set_method_def)
qed

text \<open>
  C6 as amended: when the method is matched and \<open>Unpack\<close> succeeds with one raw value for
  each declared input, \<open>ParseTransactionData\<close> returns one parameter per declared input,
  in declaration order, with the input's name and type and the formatted value, and an empty
  error.
\<close>

theorem ParseTransactionData_success:
  assumes "4 \<le> length data"
    and "first_method contractABIs order (take 4 data) = Some method"
    and "Unpack L (m_Inputs method) (drop 4 data) = Inr inputs"
    and "length inputs = length (m_Inputs method)"
  shows "ParseTransactionData L contractABIs order data =
           \<lparr>MethodName = m_Name method, MethodSignature = m_Sig method,
            Parameters =
              map (\<lambda>(input, v). \<lparr>Name = arg_Name input, Type = arg_Type input,
                                   Value = formatValue L v, Indexed = False\<rparr>)
                  (zip (m_Inputs method) inputs),
            Error = ''''\<rparr> \<and>
         length (Parameters (ParseTransactionData L contractABIs order data))
           = length (m_Inputs method) \<and>
         map Name (Parameters (ParseTransactionData L contractABIs order data))
           = map arg_Name (m_Inputs method) \<and>
         map Type (Parameters (ParseTransactionData L contractABIs order data))
           = map arg_Type (m_Inputs method)"
proof -
  let ?mk = "\<lambda>(input, v). \<lparr>Name = arg_Name input, Type = arg_Type input,
                             Value = formatValue L v, Indexed = False\<rparr>"
  have p: "tx_parameters L inputs 0 (m_Inputs method) = map ?mk (zip (m_Inputs method) inputs)"
    using tx_parameters_zip [of 0 "m_Inputs method" inputs L] assms(4) by simp
  have r: "ParseTransactionData L contractABIs order data =
           \<lparr>MethodName = m_Name method, MethodSignature = m_Sig method,
            Parameters = map ?mk (zip (m_Inputs method) inputs), Error = ''''\<rparr>"
    using assms(1-3) p
    by (simp add: ParseTransactionData_def tx_loop_first_method ParseTransactionData_found_def)
  show ?thesis using r tx_zip_names [OF assms(4), of L] assms(4) by simp
qed

theorem ParseTransactionData_success_witness:
  "4 \<le> length (transfer_id @ replicate 64 0) \<and>
   first_method token_registry [''Token''] (take 4 (transfer_id @ replicate 64 0))
     = Some transfer_method \<and>
   Unpack toy_geth (m_Inputs transfer_method) (drop 4 (transfer_id @ replicate 64 0))
     = Inr [GoOther (), GoOther ()] \<and>
   length [GoOther (), GoOther ()] = length (m_Inputs transfer_method) \<and>
   ParseTransactionData toy_geth token_registry [''Token''] (transfer_id @ replicate 64 0) =
     \<lparr>MethodName = ''transfer'', MethodSignature = ''transfer(address,uint256)'',
      Parameters = [\<lparr>Name = ''to'', Type = ''address'', Value = ''_'', Indexed = False\<rparr>,
                    \<lparr>Name = ''amount'', Type = ''uint256'', Value = ''_'', Indexed = False\<rparr>],
      Error = ''''\<rparr>"
proof -
  have a: "4 \<le> length (transfer_id @ replicate 64 0)"
    by (simp add: transfer_id_def)
  have b: "first_method token_registry [''Token''] (take 4 (transfer_id @ replicate 64 0))
             = Some transfer_method"
    by (simp add: token_registry_def token_abi_def transfer_id_def)
  have c: "Unpack toy_geth (m_Inputs transfer_method) (drop 4 (transfer_id @ replicate 64 0))
             = Inr [GoOther (), GoOther ()]"
    by (simp add: toy_geth_def transfer_method_def transfer_id_def)
  have d: "length [GoOther (), GoOther ()] = length (m_Inputs transfer_method)"
    by (simp add: transfer_method_def)
  from ParseTransactionData_success [OF a b c d] a b c d show ?thesis
    by (simp add: transfer_method_def toy_geth_def toy_Sprintf_v_def)
qed

subsection \<open>C7: the formatter\<close>

text \<open>
  C7 says that the formatter renders byte-array values as a lowercase hex string. The
  switch has a case for \<open>[]byte\<close>, which \<open>common.Bytes2Hex\<close> renders so, and none for the
  fixed-size arrays \<open>[N]byte\<close> that a \<open>bytesN\<close> parameter decodes to: such a value takes
  the \<open>default\<close> case and is printed by \<open>%v\<close>, whatever the library, which for the bytes
  \<open>12 ab\<close> gives the decimal numbers \<open>[18 171]\<close> where the byte slice gives \<open>12ab\<close>.
\<close>

theorem formatValue_byte_array_not_hex:
  "(\<forall>L :: unit geth. formatValue L (GoByteArray [0x12, 0xAB]) = Sprintf_v L (GoByteArray [0x12, 0xAB])) \<and>
   formatValue toy_geth (GoByteArray [0x12, 0xAB]) = ''[18 171]'' \<and>
   formatValue toy_geth (GoBytes [0x12, 0xAB]) = ''12ab''"
  by (simp add: toy_geth_def toy_Sprintf_v_def decimal_def hextable_def)

subsection \<open>C8: loading is all or nothing\<close>

text \<open>
  C8: if some descriptor file of the list cannot be read or does not parse,
  \<open>LoadContractABIs\<close> returns \<open>nil\<close> for the registry together with an error.
\<close>

theorem LoadContractABIs_all_or_nothing:
  "\<exists>c \<in> set contracts.
      isl (ReadFile (cc_Path c)) \<or>
      (\<exists>abiBytes. ReadFile (cc_Path c) = Inr abiBytes \<and> isl (JSON abiBytes)) \<Longrightarrow>
   fst (LoadContractABIs ReadFile JSON contracts) = None \<and>
   snd (LoadContractABIs ReadFile JSON contracts) \<noteq> None"
  using load_fail [of contracts ReadFile JSON Map.empty]
  by (auto simp: LoadContractABIs_def)

theorem LoadContractABIs_all_or_nothing_witness:
  "(\<exists>c \<in> set [\<lparr>cc_Path = ''token.json'', cc_Name = ''Token''\<rparr>,
                 \<lparr>cc_Path = ''broken.json'', cc_Name = ''Broken''\<rparr>].
      isl (toy_ReadFile (cc_Path c)) \<or>
      (\<exists>abiBytes. toy_ReadFile (cc_Path c) = Inr abiBytes \<and> isl (toy_JSON abiBytes))) \<and>
   fst (LoadContractABIs toy_ReadFile toy_JSON
          [\<lparr>cc_Path = ''token.json'', cc_Name = ''Token''\<rparr>,
           \<lparr>cc_Path = ''broken.json'', cc_Name = ''Broken''\<rparr>]) = None \<and>
   snd (LoadContractABIs toy_ReadFile toy_JSON
          [\<lparr>cc_Path = ''token.json'', cc_Name = ''Token''\<rparr>,
           \<lparr>cc_Path = ''broken.json'', cc_Name = ''Broken''\<rparr>]) \<noteq> None"
proof -
  have h: "\<exists>c \<in> set [\<lparr>cc_Path = ''token.json'', cc_Name = ''Token''\<rparr>,
                 \<lparr>cc_Path = ''broken.json'', cc_Name = ''Broken''\<rparr>].
      isl (toy_ReadFile (cc_Path c)) \<or>
      (\<exists>abiBytes. toy_ReadFile (cc_Path c) = Inr abiBytes \<and> isl (toy_JSON abiBytes))"
    by (simp add: toy_ReadFile_def toy_JSON_def)
  from LoadContractABIs_all_or_nothing [OF h] h show ?thesis by blast
qed

subsection \<open>C9: call data shorter than a selector\<close>

text \<open>
  C9: for call data shorter than four bytes \<open>ParseTransactionData\<close> returns the error
  \<open>transaction data too short\<close> with empty name, signature and parameter list, whatever
  the registry, the iteration order and the library are: nothing is looked up or decoded.
\<close>

theorem ParseTransactionData_too_short:
  "length data < 4 \<Longrightarrow>
   ParseTransactionData L contractABIs order data =
     \<lparr>MethodName = '''', MethodSignature = '''', Parameters = [],
      Error = ''transaction data too short''\<rparr>"
  by (simp add: ParseTransactionData_def)

theorem ParseTransactionData_too_short_witness:
  "length [0xA9, 0x05 :: byte] < 4 \<and>
   ParseTransactionData toy_geth token_registry [''Token''] [0xA9, 0x05] =
     \<lparr>MethodName = '''', MethodSignature = '''', Parameters = [],
      Error = ''transaction data too short''\<rparr>"
  using ParseTransactionData_too_short [of "[0xA9, 0x05]" toy_geth token_registry "[''Token'']"]
  by simp

end
